theory Spec2Isabelle
  imports Main
begin

section \<open>JavaScript values\<close>

text \<open>
  The values that flow through \<^verbatim>\<open>lib/passport-browserid/strategy.js\<close>: what
  \<^verbatim>\<open>JSON.parse\<close> returns, what the request body holds, what the application hands
  to \<^verbatim>\<open>done\<close>, and the error objects that are thrown or reported. Numbers are the
  integers (fractions and NaN play no part in the strategy); an object is a plain object,
  given by the list of its own properties in insertion order; an error object is its class
  name and its message; a built-in is a function or object of the runtime, known by its
  name only. The functions of the application are not values of this type: the verify
  callback and the transport are modelled separately below.
\<close>

datatype jsval =
    JUndefined
  | JNull
  | JBool bool
  | JNum int
  | JStr string
  | JArr "jsval list"
  | JObj "(string \<times> jsval) list"
  | JError string jsval
  | JBuiltin string

text \<open>ToBoolean: what \<^verbatim>\<open>!x\<close>, \<^verbatim>\<open>if (x)\<close> and \<^verbatim>\<open>x || y\<close> test.\<close>

fun truthy :: "jsval \<Rightarrow> bool" where
  "truthy JUndefined = False"
| "truthy JNull = False"
| "truthy (JBool b) = b"
| "truthy (JNum n) = (n \<noteq> 0)"
| "truthy (JStr s) = (s \<noteq> [])"
| "truthy (JArr xs) = True"
| "truthy (JObj kvs) = True"
| "truthy (JError n m) = True"
| "truthy (JBuiltin n) = True"

definition TypeError :: "string \<Rightarrow> jsval" where
  "TypeError msg = JError ''TypeError'' (JStr msg)"

text \<open>
  What every object inherits from \<^verbatim>\<open>Object.prototype\<close>: a property read that finds
  no own property of the name goes on along the prototype chain and finds these.
\<close>

definition Object_prototype :: "(string \<times> jsval) list" where
  "Object_prototype =
     [(''constructor'', JBuiltin ''Object''),
      (''__defineGetter__'', JBuiltin ''__defineGetter__''),
      (''__defineSetter__'', JBuiltin ''__defineSetter__''),
      (''hasOwnProperty'', JBuiltin ''hasOwnProperty''),
      (''__lookupGetter__'', JBuiltin ''__lookupGetter__''),
      (''__lookupSetter__'', JBuiltin ''__lookupSetter__''),
      (''isPrototypeOf'', JBuiltin ''isPrototypeOf''),
      (''propertyIsEnumerable'', JBuiltin ''propertyIsEnumerable''),
      (''toString'', JBuiltin ''toString''),
      (''valueOf'', JBuiltin ''valueOf''),
      (''__proto__'', JBuiltin ''Object.prototype''),
      (''toLocaleString'', JBuiltin ''toLocaleString'')]"

definition inherited :: "string \<Rightarrow> jsval" where
  "inherited k = (case map_of Object_prototype k of None \<Rightarrow> JUndefined | Some v \<Rightarrow> v)"

text \<open>
  Property read \<^verbatim>\<open>v[k]\<close>. Reading a property of \<^verbatim>\<open>undefined\<close> or
  \<^verbatim>\<open>null\<close> throws a TypeError (\<open>Inl\<close>). On a plain object the read finds the own
  property of that name, else the inherited one, else \<^verbatim>\<open>undefined\<close>. A primitive, an
  array, an error and a built-in inherit from \<^verbatim>\<open>Object.prototype\<close> as well; the
  further members their own prototypes add (the length and the indices of a string or an
  array, the methods of strings, arrays, numbers and functions) are not part of the model,
  and an overriding member reads as the one of \<^verbatim>\<open>Object.prototype\<close>.
\<close>

fun get_prop :: "jsval \<Rightarrow> string \<Rightarrow> jsval + jsval" where
  "get_prop JUndefined k = Inl (TypeError (''Cannot read property of undefined''))"
| "get_prop JNull k = Inl (TypeError (''Cannot read property of null''))"
| "get_prop (JObj kvs) k = Inr (case map_of kvs k of None \<Rightarrow> inherited k | Some v \<Rightarrow> v)"
| "get_prop (JError n m) k =
     Inr (if k = ''message'' then m else if k = ''name'' then JStr n else inherited k)"
| "get_prop (JBool b) k = Inr (inherited k)"
| "get_prop (JNum n) k = Inr (inherited k)"
| "get_prop (JStr s) k = Inr (inherited k)"
| "get_prop (JArr xs) k = Inr (inherited k)"
| "get_prop (JBuiltin n) k = Inr (inherited k)"

fun join :: "string \<Rightarrow> string list \<Rightarrow> string" where
  "join sep [] = []"
| "join sep [x] = x"
| "join sep (x # y # ys) = x @ sep @ join sep (y # ys)"

fun string_of_nat :: "nat \<Rightarrow> string" where
  "string_of_nat n =
     (if n < 10 then [''0123456789'' ! n]
      else string_of_nat (n div 10) @ [''0123456789'' ! (n mod 10)])"

declare string_of_nat.simps [simp del]

definition string_of_int :: "int \<Rightarrow> string" where
  "string_of_int i = (if i < 0 then CHR ''-'' # string_of_nat (nat (- i)) else string_of_nat (nat i))"

text \<open>ToString, used when a value serves as a property key.\<close>

fun to_string :: "jsval \<Rightarrow> string" where
  "to_string JUndefined = ''undefined''"
| "to_string JNull = ''null''"
| "to_string (JBool b) = (if b then ''true'' else ''false'')"
| "to_string (JNum n) = string_of_int n"
| "to_string (JStr s) = s"
| "to_string (JArr xs) =
     join '','' (map (\<lambda>x. if x = JUndefined \<or> x = JNull then [] else to_string x) xs)"
| "to_string (JObj kvs) = ''[object Object]''"
| "to_string (JError n m) =
     (if m = JUndefined then n
      else if to_string m = [] then n else n @ '': '' @ to_string m)"
| "to_string (JBuiltin n) =
     (if n = ''Object.prototype'' then ''[object Object]''
      else ''function '' @ n @ ''() { [native code] }'')"

section \<open>Error classes of the package\<close>

text \<open>
  Modelled from the spec: the constructor \<^verbatim>\<open>BadRequestError\<close> lives in
  \<^verbatim>\<open>./errors/badrequesterror\<close>, which is not among the source files. The spec
  describes its value as a bad-request indicator carrying the message it is built from.
\<close>

definition BadRequestError :: "jsval \<Rightarrow> jsval" where
  "BadRequestError message = JError ''BadRequestError'' message"

text \<open>
  Modelled from the spec: the constructor \<^verbatim>\<open>VerificationError\<close> lives in
  \<^verbatim>\<open>./errors/verificationerror\<close>, which is not among the source files. The spec
  describes its value as a verification-failure indicator whose message is the value it is
  built from.
\<close>

definition VerificationError :: "jsval \<Rightarrow> jsval" where
  "VerificationError message = JError ''VerificationError'' message"

section \<open>Form encoding\<close>

text \<open>
  \<^verbatim>\<open>querystring.stringify\<close> belongs to the runtime, not to the repository. The spec
  asks for form-encoded content with the keys in the order of the object and
  percent-encoded values; the definitions of this section follow that description.
\<close>

text \<open>Modelled from the spec: the characters percent-encoding leaves as they are: letters,
  digits and \<^verbatim>\<open>- _ . ! ~ * ' ( )\<close>.\<close>

definition unreserved :: "char \<Rightarrow> bool" where
  "unreserved c \<longleftrightarrow>
     c \<in> set ''ABCDEFGHIJKLMNOPQRSTUVWXYZabcdefghijklmnopqrstuvwxyz0123456789-_.!~*'()''"

text \<open>Modelled from the spec: the upper-case hexadecimal digit of a value below 16.\<close>

definition hex_digit :: "nat \<Rightarrow> char" where
  "hex_digit n = ''0123456789ABCDEF'' ! n"

text \<open>Modelled from the spec: percent-encoding of one byte, \<^verbatim>\<open>%XX\<close> unless unreserved.\<close>

definition escape_char :: "char \<Rightarrow> string" where
  "escape_char c =
     (if unreserved c then [c]
      else [CHR ''%'', hex_digit ((of_char c :: nat) div 16), hex_digit ((of_char c :: nat) mod 16)])"

text \<open>Modelled from the spec: percent-encoding of a string (\<^verbatim>\<open>querystring.escape\<close>).\<close>

definition escape :: "string \<Rightarrow> string" where
  "escape s = concat (map escape_char s)"

text \<open>Modelled from the spec: the text a value is encoded as: a string stands for itself, a
  boolean and a number for their text, any other value for the empty string.\<close>

fun stringifyPrimitive :: "jsval \<Rightarrow> string" where
  "stringifyPrimitive (JStr s) = s"
| "stringifyPrimitive (JBool b) = (if b then ''true'' else ''false'')"
| "stringifyPrimitive (JNum n) = string_of_int n"
| "stringifyPrimitive v = []"

text \<open>Modelled from the spec: one \<^verbatim>\<open>key=value\<close> pair of the form-encoded content.\<close>

definition stringify_pair :: "string \<Rightarrow> jsval \<Rightarrow> string" where
  "stringify_pair k v = escape k @ ''='' @ escape (stringifyPrimitive v)"

text \<open>Modelled from the spec: one property of the object; an array repeats its key once per
  element.\<close>

fun stringify_entry :: "string \<times> jsval \<Rightarrow> string" where
  "stringify_entry (k, JArr vs) = join ''&'' (map (stringify_pair k) vs)"
| "stringify_entry (k, v) = stringify_pair k v"

text \<open>Modelled from the spec: \<^verbatim>\<open>querystring.stringify(obj)\<close>, the pairs of the object's
  properties in their order, joined by \<^verbatim>\<open>&\<close>.\<close>

definition querystring_stringify :: "(string \<times> jsval) list \<Rightarrow> string" where
  "querystring_stringify obj = join ''&'' (map stringify_entry obj)"

section \<open>The collaborators of the strategy\<close>

text \<open>The incoming request: the strategy reads \<^verbatim>\<open>req.body\<close> only.\<close>

record request =
  body :: jsval

text \<open>
  The three callbacks of the host framework. Each invocation is recorded; the framework is
  a function telling whether the invoked callback throws (\<open>Some e\<close>) or returns.
\<close>

datatype outcome = Success jsval jsval | Fail jsval | Error jsval

type_synonym framework = "outcome \<Rightarrow> jsval option"

text \<open>
  The verify callback of the application. It receives \<^verbatim>\<open>(req, email, done)\<close> or
  \<^verbatim>\<open>(email, done)\<close>. What it does is a script: the calls of \<^verbatim>\<open>done\<close> it makes
  before it returns, possibly cut short by a \<^verbatim>\<open>throw\<close>, and the calls of
  \<^verbatim>\<open>done\<close> it makes later, from its own asynchronous work. A value that is not a
  function can be passed in its place.
\<close>

datatype verify_args = WithReq request jsval | EmailOnly jsval

datatype action = CallDone jsval jsval jsval | Throw jsval

record behaviour =
  now :: "action list"
  later :: "(jsval \<times> jsval \<times> jsval) list"

datatype callback = NotFunction jsval | Function "verify_args \<Rightarrow> behaviour"

fun truthy_callback :: "callback \<Rightarrow> bool" where
  "truthy_callback (NotFunction v) = truthy v"
| "truthy_callback (Function f) = True"

text \<open>
  The transport (\<^verbatim>\<open>https\<close> or the injected double). One call is the options object
  given to \<^verbatim>\<open>request\<close> and the body written by \<^verbatim>\<open>vreq.end(query, 'utf8')\<close>.
  The transport answers either with an \<^verbatim>\<open>'error'\<close> event on the request object
  itself (no response exists), or with a response on which it emits \<^verbatim>\<open>'data'\<close>,
  \<^verbatim>\<open>'end'\<close> and \<^verbatim>\<open>'error'\<close> events in some order.
\<close>

text \<open>The field \<open>http_method\<close> is the \<^verbatim>\<open>method\<close> property of the options object.\<close>

record https_options =
  host :: string
  path :: string
  http_method :: string
  headers :: "(string \<times> jsval) list"

record https_call =
  call_options :: https_options
  call_data :: string

datatype res_event = Data string | End | ResError jsval

datatype reply = RequestError jsval | Response "res_event list"

type_synonym transport = "https_call \<Rightarrow> reply"

section \<open>The constructor\<close>

text \<open>
  The options object: its data properties by name, as the caller wrote them, and the
  \<^verbatim>\<open>transport\<close> property, which holds functions and is therefore kept apart.
\<close>

record options =
  props :: "(string \<times> jsval) list"
  transport :: "transport option"

definition option_value :: "options \<Rightarrow> string \<Rightarrow> jsval" where
  "option_value opts k = (case map_of (props opts) k of None \<Rightarrow> JUndefined | Some v \<Rightarrow> v)"

text \<open>
  The instance: \<open>self_verify\<close> is \<^verbatim>\<open>this._verify\<close>, and likewise for the other
  underscore fields.
\<close>

record strategy =
  name :: string
  self_verify :: callback
  self_passReqToCallback :: jsval
  self_audience :: jsval
  self_assertionField :: jsval
  self_https :: transport

text \<open>
  \<^verbatim>\<open>function Strategy(options, verify)\<close>; \<open>https\<close> is the module the constructor
  falls back to when no transport is injected. \<open>Inl\<close> is the thrown error.
\<close>

definition Strategy :: "transport \<Rightarrow> options \<Rightarrow> callback \<Rightarrow> jsval + strategy" where
  "Strategy https opts verify =
     (if \<not> truthy (option_value opts ''audience'')
      then Inl (JError ''Error'' (JStr ''BrowserID authentication requires an audience option''))
      else if \<not> truthy_callback verify
      then Inl (JError ''Error'' (JStr ''BrowserID authentication strategy requires a verify function''))
      else Inr \<lparr> name = ''browserid'',
                 self_verify = verify,
                 self_passReqToCallback = option_value opts ''passReqToCallback'',
                 self_audience = option_value opts ''audience'',
                 self_assertionField =
                   (if truthy (option_value opts ''assertionField'')
                    then option_value opts ''assertionField'' else JStr ''assertion''),
                 self_https = (case transport opts of Some t \<Rightarrow> t | None \<Rightarrow> https) \<rparr>)"

section \<open>One authentication attempt\<close>

text \<open>
  What an attempt leaves behind: the outcome callbacks invoked, in order; the argument lists
  the verify callback was invoked with; the calls made on the transport; the
  \<^verbatim>\<open>done\<close> calls the application still owes; and the exception, if any, that no
  handler caught.
\<close>

record attempt =
  outcomes :: "outcome list"
  calls :: "verify_args list"
  sent :: "https_call list"
  pending :: "(jsval \<times> jsval \<times> jsval) list"
  uncaught :: "jsval option"

definition start :: attempt where
  "start = \<lparr> outcomes = [], calls = [], sent = [], pending = [], uncaught = None \<rparr>"

text \<open>
  A statement runs on the attempt and either completes or throws: the first component of
  the result is the thrown exception.
\<close>

definition invoke :: "framework \<Rightarrow> outcome \<Rightarrow> attempt \<Rightarrow> jsval option \<times> attempt" where
  "invoke fw oc a = (fw oc, a\<lparr>outcomes := outcomes a @ [oc]\<rparr>)"

text \<open>\<^verbatim>\<open>function done(err, user, info)\<close>\<close>

definition done_fn :: "framework \<Rightarrow> jsval \<Rightarrow> jsval \<Rightarrow> jsval \<Rightarrow> attempt \<Rightarrow> jsval option \<times> attempt" where
  "done_fn fw err user info a =
     (if truthy err then invoke fw (Error err) a
      else if \<not> truthy user then invoke fw (Fail info) a
      else invoke fw (Success user info) a)"

text \<open>The body of the verify callback: an exception leaving \<^verbatim>\<open>done\<close> leaves the callback.\<close>

fun run_now :: "framework \<Rightarrow> action list \<Rightarrow> attempt \<Rightarrow> jsval option \<times> attempt" where
  "run_now fw [] a = (None, a)"
| "run_now fw (Throw e # rest) a = (Some e, a)"
| "run_now fw (CallDone err user info # rest) a =
     (case done_fn fw err user info a of
        (Some e, a') \<Rightarrow> (Some e, a')
      | (None, a') \<Rightarrow> run_now fw rest a')"

definition call_verify :: "framework \<Rightarrow> callback \<Rightarrow> verify_args \<Rightarrow> attempt \<Rightarrow> jsval option \<times> attempt" where
  "call_verify fw verify args a =
     (case verify of
        NotFunction v \<Rightarrow> (Some (TypeError ''self._verify is not a function''), a)
      | Function f \<Rightarrow>
          run_now fw (now (f args))
            (a\<lparr>calls := calls a @ [args], pending := pending a @ later (f args)\<rparr>))"

text \<open>\<^verbatim>\<open>function verified(result)\<close>\<close>

definition verified :: "framework \<Rightarrow> strategy \<Rightarrow> request \<Rightarrow> jsval \<Rightarrow> attempt \<Rightarrow> jsval option \<times> attempt" where
  "verified fw self req result a =
     (case get_prop result ''email'' of
        Inl e \<Rightarrow> (Some e, a)
      | Inr email \<Rightarrow>
          if truthy (self_passReqToCallback self)
          then call_verify fw (self_verify self) (WithReq req email) a
          else call_verify fw (self_verify self) (EmailOnly email) a)"

text \<open>
  The \<^verbatim>\<open>'end'\<close> handler: the \<^verbatim>\<open>try\<close> block, then the \<^verbatim>\<open>catch\<close>. \<open>parse\<close> is
  \<^verbatim>\<open>JSON.parse\<close> of the runtime: \<open>Inl\<close> the SyntaxError it throws.
\<close>

definition try_block ::
  "(string \<Rightarrow> jsval + jsval) \<Rightarrow> framework \<Rightarrow> strategy \<Rightarrow> request \<Rightarrow> string \<Rightarrow> attempt \<Rightarrow> jsval option \<times> attempt" where
  "try_block parse fw self req data a =
     (case parse data of
        Inl e \<Rightarrow> (Some e, a)
      | Inr result \<Rightarrow>
          (case get_prop result ''status'' of
             Inl e \<Rightarrow> (Some e, a)
           | Inr status \<Rightarrow>
               if status = JStr ''okay'' then verified fw self req result a
               else (case get_prop result ''reason'' of
                       Inl e \<Rightarrow> (Some e, a)
                     | Inr reason \<Rightarrow> invoke fw (Error (VerificationError reason)) a)))"

definition on_end ::
  "(string \<Rightarrow> jsval + jsval) \<Rightarrow> framework \<Rightarrow> strategy \<Rightarrow> request \<Rightarrow> string \<Rightarrow> attempt \<Rightarrow> jsval option \<times> attempt" where
  "on_end parse fw self req data a =
     (case try_block parse fw self req data a of
        (None, a') \<Rightarrow> (None, a')
      | (Some e, a') \<Rightarrow> invoke fw (Error e) a')"

text \<open>
  The \<^verbatim>\<open>done\<close> calls the application makes later run outside every handler of the
  strategy: each is a turn of the event loop of its own.
\<close>

fun run_later :: "framework \<Rightarrow> (jsval \<times> jsval \<times> jsval) list \<Rightarrow> attempt \<Rightarrow> jsval option \<times> attempt" where
  "run_later fw [] a = (None, a)"
| "run_later fw ((err, user, info) # rest) a =
     (case done_fn fw err user info a of
        (Some e, a') \<Rightarrow> (Some e, a')
      | (None, a') \<Rightarrow> run_later fw rest a')"

definition drain :: "framework \<Rightarrow> attempt \<Rightarrow> jsval option \<times> attempt" where
  "drain fw a = run_later fw (pending a) (a\<lparr>pending := []\<rparr>)"

text \<open>
  The events of the response, in the order the transport emits them. An exception that
  leaves a handler is uncaught: the process stops and later events are not delivered.
\<close>

fun on_response ::
  "(string \<Rightarrow> jsval + jsval) \<Rightarrow> framework \<Rightarrow> strategy \<Rightarrow> request \<Rightarrow> res_event list \<Rightarrow> string \<Rightarrow> attempt \<Rightarrow> attempt" where
  "on_response parse fw self req [] data a = a"
| "on_response parse fw self req (Data chunk # evs) data a =
     on_response parse fw self req evs (data @ chunk) a"
| "on_response parse fw self req (End # evs) data a =
     (case on_end parse fw self req data a of
        (Some e, a') \<Rightarrow> a'\<lparr>uncaught := Some e\<rparr>
      | (None, a') \<Rightarrow>
          (case drain fw a' of
             (Some e, a'') \<Rightarrow> a''\<lparr>uncaught := Some e\<rparr>
           | (None, a'') \<Rightarrow> on_response parse fw self req evs data a''))"
| "on_response parse fw self req (ResError err # evs) data a =
     (case invoke fw (Error err) a of
        (Some e, a') \<Rightarrow> a'\<lparr>uncaught := Some e\<rparr>
      | (None, a') \<Rightarrow> on_response parse fw self req evs data a')"

text \<open>
  \<^verbatim>\<open>Strategy.prototype.authenticate\<close>. The request object \<^verbatim>\<open>vreq\<close> gets no
  \<^verbatim>\<open>'error'\<close> listener, so an \<^verbatim>\<open>'error'\<close> event emitted on it is thrown by the
  event emitter and nothing catches it.
\<close>

definition missing_assertion :: "framework \<Rightarrow> attempt" where
  "missing_assertion fw =
     (case invoke fw (Fail (BadRequestError (JStr ''Missing assertion''))) start of
        (thrown, a) \<Rightarrow> a\<lparr>uncaught := thrown\<rparr>)"

definition verify_call :: "strategy \<Rightarrow> jsval \<Rightarrow> https_call" where
  "verify_call self assertion =
     (let query = querystring_stringify [(''assertion'', assertion), (''audience'', self_audience self)]
      in \<lparr> call_options =
             \<lparr> host = ''verifier.login.persona.org'',
               path = ''/verify'',
               http_method = ''POST'',
               headers = [(''Host'', JStr ''verifier.login.persona.org''),
                          (''Content-Type'', JStr ''application/x-www-form-urlencoded''),
                          (''Content-Length'', JNum (int (length query)))] \<rparr>,
           call_data = query \<rparr>)"

definition authenticate ::
  "(string \<Rightarrow> jsval + jsval) \<Rightarrow> framework \<Rightarrow> strategy \<Rightarrow> request \<Rightarrow> attempt" where
  "authenticate parse fw self req =
     (if \<not> truthy (body req) then missing_assertion fw
      else
        (case get_prop (body req) (to_string (self_assertionField self)) of
           Inl e \<Rightarrow> start\<lparr>uncaught := Some e\<rparr>
         | Inr assertion \<Rightarrow>
             if \<not> truthy assertion then missing_assertion fw
             else
               (let vcall = verify_call self assertion;
                    a = start\<lparr>sent := [vcall]\<rparr>
                in case self_https self vcall of
                     RequestError e \<Rightarrow> a\<lparr>uncaught := Some e\<rparr>
                   | Response evs \<Rightarrow> on_response parse fw self req evs [] a)))"

section \<open>Collaborators for the examples\<close>

text \<open>
  Concrete collaborators on which the theorems below are exercised. \<open>example_parse\<close>
  stands in for \<^verbatim>\<open>JSON.parse\<close>: it gives the value of the three response texts used
  in the examples and rejects every other text.
\<close>

definition example_parse :: "string \<Rightarrow> jsval + jsval" where
  "example_parse s =
     (if s = ''{\"status\":\"okay\",\"email\":\"user@example.com\"}''
      then Inr (JObj [(''status'', JStr ''okay''), (''email'', JStr ''user@example.com'')])
      else if s = ''{\"status\":\"failure\",\"reason\":\"invalid signature\"}''
      then Inr (JObj [(''status'', JStr ''failure''), (''reason'', JStr ''invalid signature'')])
      else if s = ''{\"status\":\"okay\"}''
      then Inr (JObj [(''status'', JStr ''okay'')])
      else Inl (JError ''SyntaxError'' (JStr ''Unexpected token'')))"

text \<open>A host framework whose callbacks return normally.\<close>

definition quiet :: framework where
  "quiet oc = None"

text \<open>A transport that answers with the given chunks and then ends the response.\<close>

definition respond_with :: "string list \<Rightarrow> transport" where
  "respond_with chunks c = Response (map Data chunks @ [End])"

text \<open>A transport whose request fails before any response exists.\<close>

definition refuse :: "jsval \<Rightarrow> transport" where
  "refuse e c = RequestError e"

text \<open>Verify callbacks: answering at once, answering later, answering and then throwing,
  throwing at once, never answering.\<close>

definition answer :: "jsval \<Rightarrow> jsval \<Rightarrow> jsval \<Rightarrow> verify_args \<Rightarrow> behaviour" where
  "answer err user info args = \<lparr>now = [CallDone err user info], later = []\<rparr>"

definition answer_later :: "jsval \<Rightarrow> jsval \<Rightarrow> jsval \<Rightarrow> verify_args \<Rightarrow> behaviour" where
  "answer_later err user info args = \<lparr>now = [], later = [(err, user, info)]\<rparr>"


definition throw_at_once :: "jsval \<Rightarrow> verify_args \<Rightarrow> behaviour" where
  "throw_at_once e args = \<lparr>now = [Throw e], later = []\<rparr>"

definition never_answer :: "verify_args \<Rightarrow> behaviour" where
  "never_answer args = \<lparr>now = [], later = []\<rparr>"

text \<open>
  The strategy \<^verbatim>\<open>new Strategy({audience: 'http://example.com', ...extra, transport: t}, verify)\<close>
  and the request with body \<^verbatim>\<open>{assertion: 'abc'}\<close>.
\<close>

definition example_strategy :: "(string \<times> jsval) list \<Rightarrow> transport \<Rightarrow> callback \<Rightarrow> strategy" where
  "example_strategy extra t verify =
     projr (Strategy (refuse JNull)
              \<lparr>props = (''audience'', JStr ''http://example.com'') # extra, transport = Some t\<rparr> verify)"

definition example_request :: request where
  "example_request = \<lparr>body = JObj [(''assertion'', JStr ''abc'')]\<rparr>"

definition okay_text :: "string list" where
  "okay_text = [''{\"status\":\"okay\",'', ''\"email\":\"user@example.com\"}'']"

definition failure_text :: "string list" where
  "failure_text = [''{\"status\":\"failure\",\"reason\":\"invalid signature\"}'']"

section \<open>Auxiliary facts\<close>

lemma on_response_Data:
  "on_response parse fw self req (map Data chunks @ evs) data a =
   on_response parse fw self req evs (data @ concat chunks) a"
  by (induction chunks arbitrary: data) simp_all

lemma authenticate_sends:
  assumes "truthy (body req)"
      and "get_prop (body req) (to_string (self_assertionField self)) = Inr assertion"
      and "truthy assertion"
      and "self_https self (verify_call self assertion) = Response (map Data chunks @ evs)"
  shows "authenticate parse fw self req =
         on_response parse fw self req evs (concat chunks) (start\<lparr>sent := [verify_call self assertion]\<rparr>)"
  using assms by (simp add: authenticate_def Let_def on_response_Data)

lemma try_block_okay:
  assumes "parse data = Inr result"
      and "get_prop result ''status'' = Inr (JStr ''okay'')"
      and "get_prop result ''email'' = Inr email"
      and "self_verify self = Function f"
  shows "try_block parse fw self req data a =
         call_verify fw (Function f)
           (if truthy (self_passReqToCallback self) then WithReq req email else EmailOnly email) a"
  using assms by (simp add: try_block_def verified_def)

lemma call_verify_Function:
  "call_verify fw (Function f) args a =
   run_now fw (now (f args)) (a\<lparr>calls := calls a @ [args], pending := pending a @ later (f args)\<rparr>)"
  by (simp add: call_verify_def)

lemma done_fn_invoke:
  "done_fn fw err user info a =
   invoke fw (if truthy err then Error err else if \<not> truthy user then Fail info else Success user info) a"
  by (simp add: done_fn_def)

lemma example_strategy_fields:
  "truthy_callback verify \<Longrightarrow>
   example_strategy extra t verify =
     \<lparr> name = ''browserid'', self_verify = verify,
       self_passReqToCallback =
         (case map_of extra ''passReqToCallback'' of None \<Rightarrow> JUndefined | Some v \<Rightarrow> v),
       self_audience = JStr ''http://example.com'',
       self_assertionField =
         (if truthy (case map_of extra ''assertionField'' of None \<Rightarrow> JUndefined | Some v \<Rightarrow> v)
          then (case map_of extra ''assertionField'' of None \<Rightarrow> JUndefined | Some v \<Rightarrow> v)
          else JStr ''assertion''),
       self_https = t \<rparr>"
  by (simp add: example_strategy_def Strategy_def option_value_def)

lemma not_inherited [simp]:
  "inherited ''status'' = JUndefined" "inherited ''reason'' = JUndefined"
  "inherited ''email'' = JUndefined" "inherited ''assertion'' = JUndefined"
  by (simp_all add: inherited_def Object_prototype_def)


lemma invoke_sent: "invoke fw oc a = (x, a') \<Longrightarrow> sent a' = sent a"
  by (auto simp: invoke_def)

lemma done_fn_sent: "done_fn fw err user info a = (x, a') \<Longrightarrow> sent a' = sent a"
  by (auto simp: done_fn_invoke dest: invoke_sent)

lemma run_now_sent: "run_now fw acts a = (x, a') \<Longrightarrow> sent a' = sent a"
proof (induction fw acts a arbitrary: x a' rule: run_now.induct)
  case (1 fw a)
  then show ?case by simp
next
  case (2 fw e rest a)
  then show ?case by simp
next
  case (3 fw err user info rest a)
  then show ?case
    by (auto split: prod.splits option.splits dest: done_fn_sent)
qed

lemma run_later_sent: "run_later fw ds a = (x, a') \<Longrightarrow> sent a' = sent a"
proof (induction fw ds a arbitrary: x a' rule: run_later.induct)
  case (1 fw a)
  then show ?case by simp
next
  case (2 fw err user info rest a)
  then show ?case
    by (auto split: prod.splits option.splits dest: done_fn_sent)
qed

lemma call_verify_sent: "call_verify fw v args a = (x, a') \<Longrightarrow> sent a' = sent a"
  by (auto simp: call_verify_def split: callback.splits dest: run_now_sent)

lemma try_block_sent: "try_block parse fw self req data a = (x, a') \<Longrightarrow> sent a' = sent a"
  by (auto simp: try_block_def verified_def split: sum.splits if_splits
        dest: call_verify_sent invoke_sent)

lemma on_end_sent:
  assumes "on_end parse fw self req data a = (x, a')"
  shows "sent a' = sent a"
proof (cases "try_block parse fw self req data a")
  case (Pair thrown a1)
  then have "sent a1 = sent a" by (rule try_block_sent)
  with Pair assms show ?thesis
    by (cases thrown) (auto simp: on_end_def dest: invoke_sent)
qed

lemma drain_sent: "drain fw a = (x, a') \<Longrightarrow> sent a' = sent a"
  by (auto simp: drain_def dest: run_later_sent)

lemma on_response_sent: "sent (on_response parse fw self req evs data a) = sent a"
proof (induction evs arbitrary: data a)
  case Nil
  then show ?case by simp
next
  case (Cons ev evs)
  show ?case
  proof (cases ev)
    case (Data chunk)
    then show ?thesis using Cons.IH by simp
  next
    case End
    then show ?thesis
      using Cons.IH
      by (auto split: prod.splits option.splits dest!: on_end_sent drain_sent)
  next
    case (ResError err)
    then show ?thesis
      using Cons.IH
      by (auto split: prod.splits option.splits dest!: invoke_sent)
  qed
qed

lemma authenticate_sent:
  assumes "truthy (body req)"
      and "get_prop (body req) (to_string (self_assertionField self)) = Inr assertion"
      and "truthy assertion"
  shows "sent (authenticate parse fw self req) = [verify_call self assertion]"
  using assms
  by (cases "self_https self (verify_call self assertion)")
     (simp_all add: authenticate_def Let_def on_response_sent start_def)

lemma query_example:
  "querystring_stringify [(''assertion'', JStr ''abc''), (''audience'', JStr ''http://example.com'')] =
   ''assertion=abc&audience=http%3A%2F%2Fexample.com''"
  by (simp add: querystring_stringify_def stringify_pair_def escape_def escape_char_def
        unreserved_def hex_digit_def)

lemma invoke_quiet: "\<forall>oc. fw oc = None \<Longrightarrow> invoke fw oc a = (None, a\<lparr>outcomes := outcomes a @ [oc]\<rparr>)"
  by (simp add: invoke_def)

lemma run_now_dones:
  assumes "\<forall>oc. fw oc = None"
  shows "run_now fw (map (\<lambda>(err, user, info). CallDone err user info) ds @ acts) a =
         run_now fw acts
           (a\<lparr>outcomes := outcomes a @
                map (\<lambda>(err, user, info).
                       if truthy err then Error err
                       else if \<not> truthy user then Fail info else Success user info) ds\<rparr>)"
proof (induction ds arbitrary: a)
  case Nil
  then show ?case by simp
next
  case (Cons d ds)
  obtain err user info where d: "d = (err, user, info)" by (cases d)
  show ?case
    by (simp add: d done_fn_invoke invoke_quiet [OF assms] Cons.IH)
qed

lemma run_later_quiet:
  assumes "\<forall>oc. fw oc = None"
  shows "run_later fw ds a =
         (None, a\<lparr>outcomes := outcomes a @
                map (\<lambda>(err, user, info).
                       if truthy err then Error err
                       else if \<not> truthy user then Fail info else Success user info) ds\<rparr>)"
proof (induction ds arbitrary: a)
  case Nil
  then show ?case by simp
next
  case (Cons d ds)
  obtain err user info where d: "d = (err, user, info)" by (cases d)
  show ?case
    by (simp add: d done_fn_invoke invoke_quiet [OF assms] Cons.IH)
qed

lemma invoke_calls: "invoke fw oc a = (x, a') \<Longrightarrow> calls a' = calls a"
  by (auto simp: invoke_def)

lemma done_fn_calls: "done_fn fw err user info a = (x, a') \<Longrightarrow> calls a' = calls a"
  by (auto simp: done_fn_invoke dest: invoke_calls)

lemma run_now_calls: "run_now fw acts a = (x, a') \<Longrightarrow> calls a' = calls a"
proof (induction fw acts a arbitrary: x a' rule: run_now.induct)
  case (1 fw a)
  then show ?case by simp
next
  case (2 fw e rest a)
  then show ?case by simp
next
  case (3 fw err user info rest a)
  then show ?case
    by (auto split: prod.splits option.splits dest: done_fn_calls)
qed

lemma run_later_calls: "run_later fw ds a = (x, a') \<Longrightarrow> calls a' = calls a"
proof (induction fw ds a arbitrary: x a' rule: run_later.induct)
  case (1 fw a)
  then show ?case by simp
next
  case (2 fw err user info rest a)
  then show ?case
    by (auto split: prod.splits option.splits dest: done_fn_calls)
qed

lemma drain_calls: "drain fw a = (x, a') \<Longrightarrow> calls a' = calls a"
  by (auto simp: drain_def dest: run_later_calls)

lemma on_end_okay_calls:
  assumes "parse data = Inr result"
      and "get_prop result ''status'' = Inr (JStr ''okay'')"
      and "get_prop result ''email'' = Inr email"
      and "self_verify self = Function f"
      and "on_end parse fw self req data a = (x, a')"
  shows "calls a' =
         calls a @ [if truthy (self_passReqToCallback self) then WithReq req email else EmailOnly email]"
proof -
  let ?args = "if truthy (self_passReqToCallback self) then WithReq req email else EmailOnly email"
  let ?a1 = "a\<lparr>calls := calls a @ [?args], pending := pending a @ later (f ?args)\<rparr>"
  have tb: "try_block parse fw self req data a = run_now fw (now (f ?args)) ?a1"
    using try_block_okay [where parse = parse and data = data, OF assms(1-4)]
    by (simp add: call_verify_Function)
  obtain thrown a2 where r: "run_now fw (now (f ?args)) ?a1 = (thrown, a2)"
    by (cases "run_now fw (now (f ?args)) ?a1")
  then have "calls a2 = calls ?a1" by (rule run_now_calls)
  with assms(5) r tb show ?thesis
    by (cases thrown) (auto simp: on_end_def dest: invoke_calls)
qed

lemma okay_calls:
  assumes "truthy (body req)"
      and "get_prop (body req) (to_string (self_assertionField self)) = Inr assertion"
      and "truthy assertion"
      and "self_https self (verify_call self assertion) = Response (map Data chunks @ [End])"
      and "parse (concat chunks) = Inr result"
      and "get_prop result ''status'' = Inr (JStr ''okay'')"
      and "get_prop result ''email'' = Inr email"
      and "self_verify self = Function f"
  shows "calls (authenticate parse fw self req) =
         [if truthy (self_passReqToCallback self) then WithReq req email else EmailOnly email]"
proof -
  let ?a0 = "start\<lparr>sent := [verify_call self assertion]\<rparr>"
  have run: "authenticate parse fw self req = on_response parse fw self req [End] (concat chunks) ?a0"
    using assms(1-4) by (rule authenticate_sends)
  obtain x a1 where e: "on_end parse fw self req (concat chunks) ?a0 = (x, a1)"
    by (cases "on_end parse fw self req (concat chunks) ?a0")
  have c1: "calls a1 =
         calls ?a0 @ [if truthy (self_passReqToCallback self) then WithReq req email else EmailOnly email]"
    using assms(5-8) e by (rule on_end_okay_calls)
  show ?thesis
  proof (cases x)
    case None
    obtain y a2 where d: "drain fw a1 = (y, a2)" by (cases "drain fw a1")
    then have "calls a2 = calls a1" by (rule drain_calls)
    with None e d c1 show ?thesis
      unfolding run by (cases y) (simp_all add: start_def)
  next
    case (Some ex)
    with e c1 show ?thesis
      unfolding run by (simp add: start_def)
  qed
qed



section \<open>Properties of an authentication attempt\<close>

text \<open>
  C1. The verifier answers, the answer parses as JSON with status \<^verbatim>\<open>"okay"\<close>, and the
  verify callback completes with \<^verbatim>\<open>done(err, user, info)\<close>, called before it returns or
  later. Then the first outcome reported is Error with \<open>err\<close> when \<open>err\<close> is truthy,
  otherwise Fail with \<open>info\<close> when \<open>user\<close> is falsy, otherwise Success with exactly
  \<open>user\<close> and \<open>info\<close>; and when the callbacks of the host framework return normally
  it is the only outcome and nothing is left uncaught.
\<close>

theorem okay_response_outcome:
  assumes "truthy (body req)"
      and "get_prop (body req) (to_string (self_assertionField self)) = Inr assertion"
      and "truthy assertion"
      and "self_https self (verify_call self assertion) = Response (map Data chunks @ [End])"
      and "parse (concat chunks) = Inr result"
      and "get_prop result ''status'' = Inr (JStr ''okay'')"
      and "get_prop result ''email'' = Inr email"
      and "self_verify self = Function f"
      and "f (if truthy (self_passReqToCallback self) then WithReq req email else EmailOnly email) = b"
      and "b = \<lparr>now = [CallDone err user info], later = []\<rparr> \<or>
           b = \<lparr>now = [], later = [(err, user, info)]\<rparr>"
  shows "take 1 (outcomes (authenticate parse fw self req)) =
           [if truthy err then Error err else if \<not> truthy user then Fail info else Success user info]
         \<and> ((\<forall>oc. fw oc = None) \<longrightarrow>
              outcomes (authenticate parse fw self req) =
                [if truthy err then Error err else if \<not> truthy user then Fail info else Success user info]
              \<and> uncaught (authenticate parse fw self req) = None)"
proof -
  let ?X = "if truthy err then Error err else if \<not> truthy user then Fail info else Success user info"
  let ?args = "if truthy (self_passReqToCallback self) then WithReq req email else EmailOnly email"
  have run: "authenticate parse fw self req =
         on_response parse fw self req [End] (concat chunks) (start\<lparr>sent := [verify_call self assertion]\<rparr>)"
    using assms(1-4) by (rule authenticate_sends)
  have tb: "\<And>a. try_block parse fw self req (concat chunks) a =
         run_now fw (now b) (a\<lparr>calls := calls a @ [?args], pending := pending a @ later b\<rparr>)"
    using try_block_okay [where parse = parse and data = "concat chunks", OF assms(5-8)] assms(9)
    by (simp add: call_verify_Function)
  from assms(10) show ?thesis
  proof
    assume b: "b = \<lparr>now = [CallDone err user info], later = []\<rparr>"
    show ?thesis
    proof (cases "fw ?X")
      case None
      then show ?thesis
        unfolding run
        by (simp add: on_end_def tb b done_fn_invoke invoke_def drain_def start_def)
    next
      case (Some e)
      then show ?thesis
        unfolding run
        by (cases "fw (Error e)") (simp_all add: on_end_def tb b done_fn_invoke invoke_def drain_def start_def)
    qed
  next
    assume b: "b = \<lparr>now = [], later = [(err, user, info)]\<rparr>"
    show ?thesis
      unfolding run
      by (cases "fw ?X") (simp_all add: on_end_def tb b done_fn_invoke invoke_def drain_def start_def)
  qed
qed

theorem okay_response_outcome_witness:
  "outcomes (authenticate example_parse quiet
     (example_strategy [] (respond_with okay_text)
        (Function (answer JNull (JObj [(''id'', JNum 1)]) JUndefined)))
     example_request) = [Success (JObj [(''id'', JNum 1)]) JUndefined]
   \<and> outcomes (authenticate example_parse quiet
     (example_strategy [] (respond_with okay_text)
        (Function (answer_later JNull (JBool False) (JStr ''unknown user''))))
     example_request) = [Fail (JStr ''unknown user'')]"
  using okay_response_outcome
          [where req = example_request and parse = example_parse and fw = quiet
             and self = "example_strategy [] (respond_with okay_text)
                           (Function (answer JNull (JObj [(''id'', JNum 1)]) JUndefined))"
             and assertion = "JStr ''abc''" and chunks = okay_text
             and result = "JObj [(''status'', JStr ''okay''), (''email'', JStr ''user@example.com'')]"
             and email = "JStr ''user@example.com''"
             and f = "answer JNull (JObj [(''id'', JNum 1)]) JUndefined"
             and b = "\<lparr>now = [CallDone JNull (JObj [(''id'', JNum 1)]) JUndefined], later = []\<rparr>"
             and err = JNull and user = "JObj [(''id'', JNum 1)]" and info = JUndefined]
        okay_response_outcome
          [where req = example_request and parse = example_parse and fw = quiet
             and self = "example_strategy [] (respond_with okay_text)
                           (Function (answer_later JNull (JBool False) (JStr ''unknown user'')))"
             and assertion = "JStr ''abc''" and chunks = okay_text
             and result = "JObj [(''status'', JStr ''okay''), (''email'', JStr ''user@example.com'')]"
             and email = "JStr ''user@example.com''"
             and f = "answer_later JNull (JBool False) (JStr ''unknown user'')"
             and b = "\<lparr>now = [], later = [(JNull, JBool False, JStr ''unknown user'')]\<rparr>"
             and err = JNull and user = "JBool False" and info = "JStr ''unknown user''"]
  by (simp add: example_strategy_fields example_request_def respond_with_def okay_text_def
        example_parse_def quiet_def answer_def answer_later_def)

text \<open>
  C2. A body that lacks the configured assertion field does not always fail: the field is
  read with \<^verbatim>\<open>req.body[this._assertionField]\<close>, which also finds what the body
  inherits. With the assertion field configured as \<^verbatim>\<open>toString\<close> and the empty body
  \<^verbatim>\<open>{}\<close>, the guard is passed, the transport is called with an empty assertion, and the
  outcome follows from the verifier's answer.
\<close>

theorem inherited_field_counterexample:
  "map call_data (sent (authenticate example_parse quiet
      (example_strategy [(''assertionField'', JStr ''toString'')] (respond_with failure_text)
         (Function never_answer))
      \<lparr>body = JObj []\<rparr>)) = [''assertion=&audience=http%3A%2F%2Fexample.com'']
   \<and> outcomes (authenticate example_parse quiet
      (example_strategy [(''assertionField'', JStr ''toString'')] (respond_with failure_text)
         (Function never_answer))
      \<lparr>body = JObj []\<rparr>) = [Error (JError ''VerificationError'' (JStr ''invalid signature''))]"
  by (simp add: example_strategy_fields respond_with_def failure_text_def example_parse_def
        quiet_def authenticate_def start_def inherited_def Object_prototype_def
        verify_call_def querystring_stringify_def stringify_pair_def escape_def escape_char_def
        unreserved_def hex_digit_def on_end_def try_block_def invoke_def drain_def
        VerificationError_def)

text \<open>
  C2, amended. When the request has no body, or the body has no property named by the
  configured assertion field, neither its own nor one that every object inherits
  (\<^verbatim>\<open>toString\<close>, \<^verbatim>\<open>constructor\<close> and the others of \<open>Object_prototype\<close>), or
  that field is the empty string, the attempt reports Fail with the bad-request error
  \<^verbatim>\<open>Missing assertion\<close> and nothing else, the transport is not called, and neither is the
  verify callback.
\<close>

theorem missing_assertion_fails:
  assumes "self_assertionField self = JStr field"
      and "body req = JUndefined \<or>
           (\<exists>kvs. body req = JObj kvs \<and>
              ((map_of kvs field = None \<and> map_of Object_prototype field = None) \<or>
               map_of kvs field = Some (JStr [])))"
  shows "outcomes (authenticate parse fw self req) = [Fail (BadRequestError (JStr ''Missing assertion''))]
         \<and> sent (authenticate parse fw self req) = []
         \<and> calls (authenticate parse fw self req) = []"
proof -
  have "authenticate parse fw self req = missing_assertion fw"
    using assms by (auto simp: authenticate_def inherited_def)
  then show ?thesis
    by (simp add: missing_assertion_def invoke_def start_def)
qed

theorem missing_assertion_fails_witness:
  "sent (authenticate example_parse quiet
      (example_strategy [] (respond_with okay_text) (Function never_answer))
      \<lparr>body = JUndefined\<rparr>) = []
   \<and> outcomes (authenticate example_parse quiet
      (example_strategy [] (respond_with okay_text) (Function never_answer))
      \<lparr>body = JObj [(''other'', JStr ''abc'')]\<rparr>) =
        [Fail (JError ''BadRequestError'' (JStr ''Missing assertion''))]
   \<and> outcomes (authenticate example_parse quiet
      (example_strategy [] (respond_with okay_text) (Function never_answer))
      \<lparr>body = JObj [(''assertion'', JStr [])]\<rparr>) =
        [Fail (JError ''BadRequestError'' (JStr ''Missing assertion''))]"
  using missing_assertion_fails
          [where self = "example_strategy [] (respond_with okay_text) (Function never_answer)"
             and field = "''assertion''" and req = "\<lparr>body = JUndefined\<rparr>"
             and parse = example_parse and fw = quiet]
        missing_assertion_fails
          [where self = "example_strategy [] (respond_with okay_text) (Function never_answer)"
             and field = "''assertion''" and req = "\<lparr>body = JObj [(''other'', JStr ''abc'')]\<rparr>"
             and parse = example_parse and fw = quiet]
        missing_assertion_fails
          [where self = "example_strategy [] (respond_with okay_text) (Function never_answer)"
             and field = "''assertion''" and req = "\<lparr>body = JObj [(''assertion'', JStr [])]\<rparr>"
             and parse = example_parse and fw = quiet]
  by (simp add: example_strategy_fields BadRequestError_def Object_prototype_def)

text \<open>
  C3. The verifier answers and the answer parses as a JSON object whose status field is
  anything but \<^verbatim>\<open>"okay"\<close>. Then the attempt reports Error, not Fail, with a verification
  error whose message is the reason field of the answer; the verify callback is not
  invoked. (Should the error callback of the framework itself throw, the handler's catch
  clause reports that exception as a second Error.)
\<close>

theorem rejected_assertion_is_error:
  assumes "truthy (body req)"
      and "get_prop (body req) (to_string (self_assertionField self)) = Inr assertion"
      and "truthy assertion"
      and "self_https self (verify_call self assertion) = Response (map Data chunks @ [End])"
      and "parse (concat chunks) = Inr (JObj kvs)"
      and "map_of kvs ''status'' = Some status"
      and "status \<noteq> JStr ''okay''"
      and "get_prop (JObj kvs) ''reason'' = Inr reason"
  shows "outcomes (authenticate parse fw self req) =
           Error (VerificationError reason) #
             (case fw (Error (VerificationError reason)) of None \<Rightarrow> [] | Some e \<Rightarrow> [Error e])
         \<and> get_prop (VerificationError reason) ''message'' = Inr reason
         \<and> calls (authenticate parse fw self req) = []"
proof -
  have run: "authenticate parse fw self req =
         on_response parse fw self req [End] (concat chunks) (start\<lparr>sent := [verify_call self assertion]\<rparr>)"
    using assms(1-4) by (rule authenticate_sends)
  have tb: "\<And>a. try_block parse fw self req (concat chunks) a = invoke fw (Error (VerificationError reason)) a"
    using assms(5-8) by (simp add: try_block_def)
  show ?thesis
  proof (cases "fw (Error (VerificationError reason))")
    case None
    then show ?thesis
      unfolding run
      by (simp add: on_end_def tb invoke_def drain_def start_def VerificationError_def)
  next
    case (Some e)
    then show ?thesis
      unfolding run
      by (cases "fw (Error e)")
         (simp_all add: on_end_def tb invoke_def drain_def start_def VerificationError_def)
  qed
qed

theorem rejected_assertion_is_error_witness:
  "outcomes (authenticate example_parse quiet
     (example_strategy [] (respond_with failure_text) (Function never_answer))
     example_request) = [Error (JError ''VerificationError'' (JStr ''invalid signature''))]"
  using rejected_assertion_is_error
          [where req = example_request and parse = example_parse and fw = quiet
             and self = "example_strategy [] (respond_with failure_text) (Function never_answer)"
             and assertion = "JStr ''abc''" and chunks = failure_text
             and kvs = "[(''status'', JStr ''failure''), (''reason'', JStr ''invalid signature'')]"
             and status = "JStr ''failure''" and reason = "JStr ''invalid signature''"]
  by (simp add: example_strategy_fields example_request_def respond_with_def failure_text_def
        example_parse_def quiet_def VerificationError_def)

text \<open>
  C4. The request object returned by the transport gets no \<^verbatim>\<open>'error'\<close> listener; only
  the response does. When the connection is refused, so that the error is emitted on the
  request before any response exists, no outcome callback is invoked and the error is left
  uncaught.
\<close>

theorem request_error_is_uncaught:
  "outcomes (authenticate example_parse quiet
      (example_strategy [] (refuse (JError ''Error'' (JStr ''connect ECONNREFUSED''))) (Function never_answer))
      example_request) = []
   \<and> uncaught (authenticate example_parse quiet
      (example_strategy [] (refuse (JError ''Error'' (JStr ''connect ECONNREFUSED''))) (Function never_answer))
      example_request) = Some (JError ''Error'' (JStr ''connect ECONNREFUSED''))"
  by (simp add: example_strategy_fields example_request_def refuse_def authenticate_def start_def)




text \<open>
  C6. For the request body \<^verbatim>\<open>{assertion: "abc"}\<close> and a strategy constructed with the
  audience \<^verbatim>\<open>"http://example.com"\<close>, whatever the transport, the verify callback, the
  parser and the framework do, one call is made on the transport and the body written to
  it is \<^verbatim>\<open>assertion=abc&audience=http%3A%2F%2Fexample.com\<close>.
\<close>

theorem verification_call_body:
  "\<exists>self. Strategy https \<lparr>props = [(''audience'', JStr ''http://example.com'')], transport = t\<rparr>
              (Function f) = Inr self
     \<and> map call_data (sent (authenticate parse fw self \<lparr>body = JObj [(''assertion'', JStr ''abc'')]\<rparr>)) =
         [''assertion=abc&audience=http%3A%2F%2Fexample.com'']"
proof -
  let ?self = "\<lparr> name = ''browserid'', self_verify = Function f, self_passReqToCallback = JUndefined,
                 self_audience = JStr ''http://example.com'', self_assertionField = JStr ''assertion'',
                 self_https = (case t of Some t' \<Rightarrow> t' | None \<Rightarrow> https) \<rparr>"
  let ?req = "\<lparr>body = JObj [(''assertion'', JStr ''abc'')]\<rparr>"
  have made: "Strategy https \<lparr>props = [(''audience'', JStr ''http://example.com'')], transport = t\<rparr>
                (Function f) = Inr ?self"
    by (simp add: Strategy_def option_value_def)
  have call: "call_data (verify_call ?self (JStr ''abc'')) = ''assertion=abc&audience=http%3A%2F%2Fexample.com''"
    by (simp add: verify_call_def Let_def query_example)
  have "sent (authenticate parse fw ?self ?req) = [verify_call ?self (JStr ''abc'')]"
    by (rule authenticate_sent) simp_all
  with made call show ?thesis by simp
qed

text \<open>
  C7. The option the constructor reads is \<^verbatim>\<open>passReqToCallback\<close>. A strategy constructed
  with \<^verbatim>\<open>passRequestToCallback: true\<close> still invokes the verify callback with the email
  first and without the request.
\<close>

theorem passRequestToCallback_counterexample:
  "calls (authenticate example_parse quiet
      (example_strategy [(''passRequestToCallback'', JBool True)] (respond_with okay_text)
         (Function never_answer))
      example_request) = [EmailOnly (JStr ''user@example.com'')]"
  by (simp add: example_strategy_fields example_request_def respond_with_def okay_text_def
        example_parse_def quiet_def never_answer_def authenticate_def start_def
        on_end_def try_block_def verified_def call_verify_def drain_def)

text \<open>
  C7, amended. When the strategy is constructed with the option \<^verbatim>\<open>passReqToCallback\<close>
  set to true, the verify callback is invoked with the original request as its first
  argument, followed by the email and the completion function; when that option is false
  or absent, its first argument is the email and it does not receive the request.
\<close>

theorem request_passed_to_callback:
  assumes "Strategy https opts (Function f) = Inr self"
      and "truthy (body req)"
      and "get_prop (body req) (to_string (self_assertionField self)) = Inr assertion"
      and "truthy assertion"
      and "self_https self (verify_call self assertion) = Response (map Data chunks @ [End])"
      and "parse (concat chunks) = Inr result"
      and "get_prop result ''status'' = Inr (JStr ''okay'')"
      and "get_prop result ''email'' = Inr email"
  shows "(map_of (props opts) ''passReqToCallback'' = Some (JBool True) \<longrightarrow>
            calls (authenticate parse fw self req) = [WithReq req email])
         \<and> (map_of (props opts) ''passReqToCallback'' = Some (JBool False) \<or>
            map_of (props opts) ''passReqToCallback'' = None \<longrightarrow>
            calls (authenticate parse fw self req) = [EmailOnly email])"
proof -
  have v: "self_verify self = Function f"
    and p: "self_passReqToCallback self = option_value opts ''passReqToCallback''"
    using assms(1) by (auto simp: Strategy_def split: if_splits)
  have "calls (authenticate parse fw self req) =
         [if truthy (self_passReqToCallback self) then WithReq req email else EmailOnly email]"
    using assms(2-8) v by (rule okay_calls)
  then show ?thesis
    by (auto simp: p option_value_def)
qed

theorem request_passed_to_callback_witness:
  "calls (authenticate example_parse quiet
      (example_strategy [(''passReqToCallback'', JBool True)] (respond_with okay_text)
         (Function never_answer))
      example_request) = [WithReq example_request (JStr ''user@example.com'')]
   \<and> calls (authenticate example_parse quiet
      (example_strategy [] (respond_with okay_text) (Function never_answer))
      example_request) = [EmailOnly (JStr ''user@example.com'')]"
  using request_passed_to_callback
          [where https = "refuse JNull" and f = never_answer
             and opts = "\<lparr>props = [(''audience'', JStr ''http://example.com''),
                                   (''passReqToCallback'', JBool True)],
                          transport = Some (respond_with okay_text)\<rparr>"
             and self = "example_strategy [(''passReqToCallback'', JBool True)] (respond_with okay_text)
                           (Function never_answer)"
             and req = example_request and parse = example_parse and fw = quiet
             and assertion = "JStr ''abc''" and chunks = okay_text
             and result = "JObj [(''status'', JStr ''okay''), (''email'', JStr ''user@example.com'')]"
             and email = "JStr ''user@example.com''"]
        request_passed_to_callback
          [where https = "refuse JNull" and f = never_answer
             and opts = "\<lparr>props = [(''audience'', JStr ''http://example.com'')],
                          transport = Some (respond_with okay_text)\<rparr>"
             and self = "example_strategy [] (respond_with okay_text) (Function never_answer)"
             and req = example_request and parse = example_parse and fw = quiet
             and assertion = "JStr ''abc''" and chunks = okay_text
             and result = "JObj [(''status'', JStr ''okay''), (''email'', JStr ''user@example.com'')]"
             and email = "JStr ''user@example.com''"]
  by (simp add: example_strategy_fields example_request_def respond_with_def okay_text_def
        example_parse_def Strategy_def option_value_def)

text \<open>
  C8. Construction throws when the audience option is absent or the empty string, and
  when no verify callback is supplied; with a non-empty audience and a callback it succeeds
  and the strategy holds both.
\<close>

theorem construction_contract:
  "(map_of (props opts) ''audience'' = None \<or> map_of (props opts) ''audience'' = Some (JStr []) \<longrightarrow>
      Strategy https opts verify =
        Inl (JError ''Error'' (JStr ''BrowserID authentication requires an audience option'')))
   \<and> (map_of (props opts) ''audience'' = Some (JStr audience) \<and> audience \<noteq> [] \<and>
        verify = NotFunction JUndefined \<longrightarrow>
      Strategy https opts verify =
        Inl (JError ''Error'' (JStr ''BrowserID authentication strategy requires a verify function'')))
   \<and> (verify = NotFunction JUndefined \<longrightarrow> (\<exists>e. Strategy https opts verify = Inl e))
   \<and> (map_of (props opts) ''audience'' = Some (JStr audience) \<and> audience \<noteq> [] \<and>
        verify = Function f \<longrightarrow>
      (\<exists>self. Strategy https opts verify = Inr self \<and> self_audience self = JStr audience
          \<and> self_verify self = Function f))"
  by (auto simp: Strategy_def option_value_def)

theorem construction_contract_witness:
  "Strategy (refuse JNull) \<lparr>props = [], transport = None\<rparr> (Function never_answer) =
     Inl (JError ''Error'' (JStr ''BrowserID authentication requires an audience option''))
   \<and> Strategy (refuse JNull) \<lparr>props = [(''audience'', JStr ''http://example.com'')], transport = None\<rparr>
        (NotFunction JUndefined) =
     Inl (JError ''Error'' (JStr ''BrowserID authentication strategy requires a verify function''))
   \<and> (\<exists>self. Strategy (refuse JNull) \<lparr>props = [(''audience'', JStr ''http://example.com'')], transport = None\<rparr>
        (Function never_answer) = Inr self
        \<and> self_audience self = JStr ''http://example.com''
        \<and> self_verify self = Function never_answer)"
  using construction_contract
          [where https = "refuse JNull" and opts = "\<lparr>props = [], transport = None\<rparr>"
             and verify = "Function never_answer"]
        construction_contract
          [where https = "refuse JNull"
             and opts = "\<lparr>props = [(''audience'', JStr ''http://example.com'')], transport = None\<rparr>"
             and verify = "NotFunction JUndefined" and audience = "''http://example.com''"]
        construction_contract
          [where https = "refuse JNull"
             and opts = "\<lparr>props = [(''audience'', JStr ''http://example.com'')], transport = None\<rparr>"
             and verify = "Function never_answer" and audience = "''http://example.com''"
             and f = never_answer]
  by simp

text \<open>
  C9. The verifier answers with status \<^verbatim>\<open>"okay"\<close> and the verify callback throws before
  it returns, possibly after calls of \<^verbatim>\<open>done\<close>. With framework callbacks that return
  normally, the thrown exception is caught by the \<^verbatim>\<open>'end'\<close> handler and reported as
  Error with that exception, after the outcomes of the earlier \<^verbatim>\<open>done\<close> calls, and
  nothing is left uncaught.
\<close>

theorem callback_exception_is_reported:
  assumes "truthy (body req)"
      and "get_prop (body req) (to_string (self_assertionField self)) = Inr assertion"
      and "truthy assertion"
      and "self_https self (verify_call self assertion) = Response (map Data chunks @ [End])"
      and "parse (concat chunks) = Inr result"
      and "get_prop result ''status'' = Inr (JStr ''okay'')"
      and "get_prop result ''email'' = Inr email"
      and "self_verify self = Function f"
      and "f (if truthy (self_passReqToCallback self) then WithReq req email else EmailOnly email) = b"
      and "now b = map (\<lambda>(err, user, info). CallDone err user info) ds @ Throw e # rest"
      and "\<forall>oc. fw oc = None"
  shows "outcomes (authenticate parse fw self req) =
           map (\<lambda>(err, user, info).
                  if truthy err then Error err
                  else if \<not> truthy user then Fail info else Success user info) ds
           @ Error e #
           map (\<lambda>(err, user, info).
                  if truthy err then Error err
                  else if \<not> truthy user then Fail info else Success user info) (later b)
         \<and> uncaught (authenticate parse fw self req) = None"
proof -
  let ?args = "if truthy (self_passReqToCallback self) then WithReq req email else EmailOnly email"
  have run: "authenticate parse fw self req =
         on_response parse fw self req [End] (concat chunks) (start\<lparr>sent := [verify_call self assertion]\<rparr>)"
    using assms(1-4) by (rule authenticate_sends)
  have tb: "\<And>a. try_block parse fw self req (concat chunks) a =
         run_now fw (now b) (a\<lparr>calls := calls a @ [?args], pending := pending a @ later b\<rparr>)"
    using try_block_okay [where parse = parse and data = "concat chunks", OF assms(5-8)] assms(9)
    by (simp add: call_verify_Function)
  show ?thesis
    unfolding run
    by (simp add: on_end_def tb assms(10) run_now_dones [OF assms(11)] invoke_quiet [OF assms(11)]
          drain_def run_later_quiet [OF assms(11)] start_def)
qed

theorem callback_exception_is_reported_witness:
  "outcomes (authenticate example_parse quiet
      (example_strategy [] (respond_with okay_text)
         (Function (throw_at_once (JError ''Error'' (JStr ''boom'')))))
      example_request) = [Error (JError ''Error'' (JStr ''boom''))]
   \<and> uncaught (authenticate example_parse quiet
      (example_strategy [] (respond_with okay_text)
         (Function (throw_at_once (JError ''Error'' (JStr ''boom'')))))
      example_request) = None"
  using callback_exception_is_reported
          [where req = example_request and parse = example_parse and fw = quiet
             and self = "example_strategy [] (respond_with okay_text)
                           (Function (throw_at_once (JError ''Error'' (JStr ''boom''))))"
             and assertion = "JStr ''abc''" and chunks = okay_text
             and result = "JObj [(''status'', JStr ''okay''), (''email'', JStr ''user@example.com'')]"
             and email = "JStr ''user@example.com''"
             and f = "throw_at_once (JError ''Error'' (JStr ''boom''))"
             and b = "\<lparr>now = [Throw (JError ''Error'' (JStr ''boom''))], later = []\<rparr>"
             and ds = "[]" and e = "JError ''Error'' (JStr ''boom'')" and rest = "[]"]
  by (simp add: example_strategy_fields example_request_def respond_with_def okay_text_def
        example_parse_def quiet_def throw_at_once_def)

text \<open>
  C10. The verifier answers with a JSON object whose status is \<^verbatim>\<open>"okay"\<close> and which has
  no email field. The strategy still invokes the verify callback, once, with
  \<^verbatim>\<open>undefined\<close> as the email; and it reports nothing of its own: with framework
  callbacks that return normally and a callback that does not throw, the outcomes are
  exactly those selected by the callback's calls of \<^verbatim>\<open>done\<close>, none if it makes none.
\<close>

theorem okay_without_email:
  assumes "truthy (body req)"
      and "get_prop (body req) (to_string (self_assertionField self)) = Inr assertion"
      and "truthy assertion"
      and "self_https self (verify_call self assertion) = Response (map Data chunks @ [End])"
      and "parse (concat chunks) = Inr (JObj kvs)"
      and "map_of kvs ''status'' = Some (JStr ''okay'')"
      and "map_of kvs ''email'' = None"
      and "self_verify self = Function f"
      and "f (if truthy (self_passReqToCallback self) then WithReq req JUndefined else EmailOnly JUndefined) = b"
  shows "calls (authenticate parse fw self req) =
           [if truthy (self_passReqToCallback self) then WithReq req JUndefined else EmailOnly JUndefined]
         \<and> ((\<forall>oc. fw oc = None) \<and> now b = map (\<lambda>(err, user, info). CallDone err user info) ds \<longrightarrow>
              outcomes (authenticate parse fw self req) =
                map (\<lambda>(err, user, info).
                       if truthy err then Error err
                       else if \<not> truthy user then Fail info else Success user info) (ds @ later b)
              \<and> uncaught (authenticate parse fw self req) = None)"
proof -
  let ?args = "if truthy (self_passReqToCallback self) then WithReq req JUndefined else EmailOnly JUndefined"
  have st: "get_prop (JObj kvs) ''status'' = Inr (JStr ''okay'')"
    using assms(6) by simp
  have em: "get_prop (JObj kvs) ''email'' = Inr JUndefined"
    using assms(7) by simp
  have run: "authenticate parse fw self req =
         on_response parse fw self req [End] (concat chunks) (start\<lparr>sent := [verify_call self assertion]\<rparr>)"
    using assms(1-4) by (rule authenticate_sends)
  have tb: "\<And>a. try_block parse fw self req (concat chunks) a =
         run_now fw (now b) (a\<lparr>calls := calls a @ [?args], pending := pending a @ later b\<rparr>)"
    using try_block_okay [where parse = parse and data = "concat chunks", OF assms(5) st em assms(8)] assms(9)
    by (simp add: call_verify_Function)
  have invoked: "calls (authenticate parse fw self req) = [?args]"
    using assms(1-5) st em assms(8) by (rule okay_calls)
  have reported: "outcomes (authenticate parse fw self req) =
           map (\<lambda>(err, user, info).
                  if truthy err then Error err
                  else if \<not> truthy user then Fail info else Success user info) (ds @ later b)
         \<and> uncaught (authenticate parse fw self req) = None"
    if quiet: "\<forall>oc. fw oc = None"
      and dones: "now b = map (\<lambda>(err, user, info). CallDone err user info) ds"
    unfolding run
    using run_now_dones [OF quiet, where ds = ds and acts = "[]"]
    by (simp add: on_end_def tb dones drain_def run_later_quiet [OF quiet] start_def)
  from invoked reported show ?thesis by blast
qed

theorem okay_without_email_witness:
  "calls (authenticate example_parse quiet
      (example_strategy [] (respond_with [''{\"status\":\"okay\"}'']) (Function never_answer))
      example_request) = [EmailOnly JUndefined]
   \<and> outcomes (authenticate example_parse quiet
      (example_strategy [] (respond_with [''{\"status\":\"okay\"}'']) (Function never_answer))
      example_request) = []"
  using okay_without_email
          [where req = example_request and parse = example_parse and fw = quiet
             and self = "example_strategy [] (respond_with [''{\"status\":\"okay\"}''])
                           (Function never_answer)"
             and assertion = "JStr ''abc''" and chunks = "[''{\"status\":\"okay\"}'']"
             and kvs = "[(''status'', JStr ''okay'')]"
             and f = never_answer and b = "\<lparr>now = [], later = []\<rparr>" and ds = "[]"]
  by (simp add: example_strategy_fields example_request_def respond_with_def
        example_parse_def quiet_def never_answer_def)

end
